theory Spec2Isabelle
  imports Main "HOL-Library.AList"
begin

section \<open>JavaScript values\<close>

text \<open>
  Response bodies are decoded JSON documents. Strings are byte strings (the UTF-8 bytes of
  the JavaScript string), numbers are integers. \<open>undefined\<close> is not a JSON value: the
  result of a property read is a \<open>jsval\<close>, where \<open>None\<close> stands for \<open>undefined\<close>.
\<close>

datatype json =
    JNull
  | JBool bool
  | JNum int
  | JStr string
  | JArr "json list"
  | JObj "(string \<times> json) list"

type_synonym jsval = "json option"

text \<open>JavaScript truthiness, as used by \<open>a && b\<close>, \<open>a || b\<close> and \<open>!a\<close>.\<close>

fun truthy :: "json \<Rightarrow> bool" where
  "truthy JNull = False"
| "truthy (JBool b) = b"
| "truthy (JNum n) = (n \<noteq> 0)"
| "truthy (JStr s) = (s \<noteq> [])"
| "truthy (JArr xs) = True"
| "truthy (JObj kvs) = True"

definition truthy_val :: "jsval \<Rightarrow> bool" where
  "truthy_val v = (case v of None \<Rightarrow> False | Some j \<Rightarrow> truthy j)"

text \<open>
  \<open>v.k\<close> on a value that is neither \<open>null\<close> nor \<open>undefined\<close>, for the keys the source
  reads (\<open>data\<close>, \<open>message\<close>, \<open>access_token\<close>, \<open>refresh_token\<close>): an object yields its
  entry, every other value has no such property.
\<close>

fun get_prop :: "json \<Rightarrow> string \<Rightarrow> jsval" where
  "get_prop (JObj kvs) k = map_of kvs k"
| "get_prop _ k = None"

text \<open>A template literal \<open>`${x}`\<close> over a \<open>string | null\<close> field.\<close>

definition template :: "string option \<Rightarrow> string" where
  "template x = (case x of None \<Rightarrow> ''null'' | Some s \<Rightarrow> s)"

text \<open>\<open>!x\<close> over a \<open>string | null\<close> field: \<open>null\<close> and the empty string are falsy.\<close>

definition falsy_field :: "string option \<Rightarrow> bool" where
  "falsy_field x = (case x of None \<Rightarrow> True | Some s \<Rightarrow> s = [])"

subsection \<open>Numbers as text\<close>

definition digit_char :: "nat \<Rightarrow> char" where
  "digit_char n = ''0123456789'' ! n"

fun decimal :: "nat \<Rightarrow> string" where
  "decimal n = (if n < 10 then [digit_char n] else decimal (n div 10) @ [digit_char (n mod 10)])"

declare decimal.simps [simp del]

definition decimal_int :: "int \<Rightarrow> string" where
  "decimal_int i = (if i < 0 then CHR ''-'' # decimal (nat (- i)) else decimal (nat i))"

subsection \<open>\<open>Array.prototype.join\<close>\<close>

fun join :: "string \<Rightarrow> string list \<Rightarrow> string" where
  "join sep [] = []"
| "join sep [x] = x"
| "join sep (x # y # ys) = x @ sep @ join sep (y # ys)"

subsection \<open>\<open>JSON.stringify\<close>\<close>

text \<open>
  The serialisation of a JSON value without indentation: the two-character escapes for
  the quote, the backslash and the five named control characters, \<open>\u00xx\<close> in lower
  case for the other control characters, every other byte as it is.
\<close>

definition lower_hex_char :: "nat \<Rightarrow> char" where
  "lower_hex_char n = ''0123456789abcdef'' ! n"

definition quote_char :: "char \<Rightarrow> string" where
  "quote_char c =
     (if c = CHR 0x22 then [CHR 0x5C, CHR 0x22]
      else if c = CHR 0x5C then [CHR 0x5C, CHR 0x5C]
      else if c = CHR 0x08 then [CHR 0x5C, CHR ''b'']
      else if c = CHR 0x0C then [CHR 0x5C, CHR ''f'']
      else if c = CHR 0x0A then [CHR 0x5C, CHR ''n'']
      else if c = CHR 0x0D then [CHR 0x5C, CHR ''r'']
      else if c = CHR 0x09 then [CHR 0x5C, CHR ''t'']
      else if (of_char c :: nat) < 0x20
        then [CHR 0x5C, CHR ''u'', CHR ''0'', CHR ''0'',
              lower_hex_char ((of_char c :: nat) div 16), lower_hex_char ((of_char c :: nat) mod 16)]
      else [c])"

definition quote :: "string \<Rightarrow> string" where
  "quote s = [CHR 0x22] @ concat (map quote_char s) @ [CHR 0x22]"

fun JSON_stringify :: "json \<Rightarrow> string"
  and stringify_elems :: "json list \<Rightarrow> string list"
  and stringify_members :: "(string \<times> json) list \<Rightarrow> string list" where
  "JSON_stringify JNull = ''null''"
| "JSON_stringify (JBool b) = (if b then ''true'' else ''false'')"
| "JSON_stringify (JNum n) = decimal_int n"
| "JSON_stringify (JStr s) = quote s"
| "JSON_stringify (JArr xs) = ''['' @ join '','' (stringify_elems xs) @ '']''"
| "JSON_stringify (JObj kvs) = ''{'' @ join '','' (stringify_members kvs) @ ''}''"
| "stringify_elems [] = []"
| "stringify_elems (x # xs) = JSON_stringify x # stringify_elems xs"
| "stringify_members [] = []"
| "stringify_members ((k, v) # kvs) = (quote k @ '':'' @ JSON_stringify v) # stringify_members kvs"

section \<open>The transport collaborator\<close>

text \<open>
  The request configuration handed to the HTTP client. \<open>options\<close> of the executor and
  the configuration it builds are both of this type; a caller's options leave
  \<open>method\<close> and \<open>url\<close> unset. A headers object is an association list in insertion
  order, with one entry per key.
\<close>

record AxiosRequestConfig =
  method' :: "string option"
  url :: "string option"
  headers :: "(string \<times> string) list option"
  params :: "(string \<times> string) list option"
  data :: "string option"

definition no_options :: AxiosRequestConfig where
  "no_options = \<lparr>method' = None, url = None, headers = None, params = None, data = None\<rparr>"

text \<open>A response: its status and its decoded body (\<open>response.data\<close>).\<close>

datatype AxiosResponse = AxiosResponse (status: nat) (body: json)

text \<open>The error the client rejects with; \<open>response\<close> is absent on a network failure.\<close>

datatype AxiosError = AxiosError (response: "AxiosResponse option")

text \<open>What the network answers to a request: a response, or nothing at all.\<close>

type_synonym network = "AxiosRequestConfig \<Rightarrow> AxiosResponse option"

text \<open>
  Modelled from the spec: the HTTP client (axios) is an external collaborator, not part of
  the sources; it returns status and parsed body, or raises on a status outside 2xx. This
  is the client's default status validation, which no call site overrides. It raises
  without a response when the network gave none.
\<close>

definition validateStatus :: "nat \<Rightarrow> bool" where
  "validateStatus s = (200 \<le> s \<and> s < 300)"

definition axios_request :: "network \<Rightarrow> AxiosRequestConfig \<Rightarrow> AxiosError + AxiosResponse" where
  "axios_request net config =
     (case net config of
        None \<Rightarrow> Inl (AxiosError None)
      | Some r \<Rightarrow> if validateStatus (status r) then Inr r else Inl (AxiosError (Some r)))"

section \<open>Errors\<close>

text \<open>
  Every \<open>throw\<close> of the source is a value. The six classes imported from
  \<open>../errors\<close> are constructed with a message and a context string, and an error
  value records the class and these two arguments; \<open>Error\<close> is the plain built-in error
  and \<open>TypeError\<close> the built-in one, thrown by the source or by the language on a property
  read of \<open>undefined\<close> or \<open>null\<close>; \<open>Rejected\<close> is a transport error that passes through
  unchanged.
\<close>

datatype error =
    InvalidAccessTokenError string string
  | NotFoundError string string
  | BadRequestError string string
  | RateLimitedError string string
  | DiscordAPIError string string
  | UnauthorizedError string string
  | Error string
  | TypeError string
  | Rejected AxiosError

definition cannot_read :: "string \<Rightarrow> string \<Rightarrow> error" where
  "cannot_read what key =
     TypeError (''Cannot read properties of '' @ what @ '' (reading '' @ [CHR 0x27] @ key @ [CHR 0x27] @ '')'')"

section \<open>The client object\<close>

record DiscordAuthorization =
  clientId :: string
  clientSecret :: string
  redirectUri :: string
  accessToken :: "string option"
  refreshToken :: "string option"
  clientToken :: "string option"

definition baseURL :: string where
  "baseURL = ''https://discord.com/api/v10''"

section \<open>The request executor\<close>

definition errorMessages :: "nat \<Rightarrow> string option" where
  "errorMessages s =
     (if s = 200 then Some ''Success''
      else if s = 300 then Some ''Multiple Choices''
      else if s = 400 then Some ''Bad request''
      else if s = 401 then Some ''Access token must be valid.''
      else if s = 429 then Some ''Request limit reached. Try again later.''
      else if s = 500 then Some ''Discord API Server Error''
      else if s = 404 then Some ''Not found.''
      else if s = 403 then Some ''You are not authorized to perform this action.''
      else None)"

text \<open>The configuration \<open>request\<close> builds before the call (the first part of its body).\<close>

definition requestOptions :: "DiscordAuthorization \<Rightarrow> string \<Rightarrow> string \<Rightarrow> AxiosRequestConfig \<Rightarrow> AxiosRequestConfig" where
  "requestOptions this meth endpoint options =
     (let headers' = AList.update ''Authorization'' (''Bearer '' @ template (accessToken this))
                       (case headers options of None \<Rightarrow> [] | Some h \<Rightarrow> h);
          ro = options\<lparr>method' := Some meth, url := Some (baseURL @ endpoint), headers := Some headers'\<rparr>
      in if meth = ''GET'' \<and> params options \<noteq> None then ro\<lparr>params := params options\<rparr>
         else if meth \<in> set [''PUT'', ''POST'', ''PATCH''] then ro\<lparr>data := data options\<rparr>
         else ro)"

text \<open>The \<open>catch\<close> block of \<open>request\<close>.\<close>

definition request_catch :: "AxiosError \<Rightarrow> error" where
  "request_catch err =
     (case response err of
        None \<Rightarrow> cannot_read ''undefined'' ''status''
      | Some r \<Rightarrow>
          (let errorMessage =
                 (case errorMessages (status r) of
                    Some m \<Rightarrow> m
                  | None \<Rightarrow> ''Status '' @ decimal (status r) @ '' is not handled yet.'')
           in if truthy (body r) \<and> truthy_val (get_prop (body r) ''message'') then
                (if status r = 401 then InvalidAccessTokenError errorMessage (JSON_stringify (body r))
                 else if status r = 404 then NotFoundError errorMessage (JSON_stringify (body r))
                 else if status r = 400 then BadRequestError errorMessage (JSON_stringify (body r))
                 else if status r = 429 then RateLimitedError errorMessage (JSON_stringify (body r))
                 else if status r = 500 then DiscordAPIError errorMessage (JSON_stringify (body r))
                 else if status r = 403 then UnauthorizedError errorMessage (JSON_stringify (body r))
                 else Error (errorMessage @ '' Response Data: '' @ JSON_stringify (body r)))
              else Error errorMessage))"

text \<open>
  \<open>request\<close> returns what it returns or throws, together with the outbound calls it made.
\<close>

definition request :: "network \<Rightarrow> DiscordAuthorization \<Rightarrow> string \<Rightarrow> string \<Rightarrow> AxiosRequestConfig
    \<Rightarrow> (error + json) \<times> AxiosRequestConfig list" where
  "request net this meth endpoint options =
     (let ro = requestOptions this meth endpoint options
      in (case axios_request net ro of
            Inr r \<Rightarrow> Inr (body r)
          | Inl err \<Rightarrow> Inl (request_catch err),
          [ro]))"

section \<open>\<open>URLSearchParams\<close>\<close>

text \<open>
  \<open>toString\<close> is the application/x-www-form-urlencoded serialiser: a space becomes
  \<open>+\<close>, the bytes \<open>* - . _\<close>, digits and letters stay, every other byte is \<open>%\<close>
  and two upper-case hexadecimal digits.
\<close>

definition hex_char :: "nat \<Rightarrow> char" where
  "hex_char n = ''0123456789ABCDEF'' ! n"

definition unreserved :: "char \<Rightarrow> bool" where
  "unreserved c =
     (let n = (of_char c :: nat)
      in n = 0x2A \<or> n = 0x2D \<or> n = 0x2E \<or> (0x30 \<le> n \<and> n \<le> 0x39)
         \<or> (0x41 \<le> n \<and> n \<le> 0x5A) \<or> n = 0x5F \<or> (0x61 \<le> n \<and> n \<le> 0x7A))"

definition urlencode_byte :: "char \<Rightarrow> string" where
  "urlencode_byte c =
     (if c = CHR 0x20 then [CHR ''+'']
      else if unreserved c then [c]
      else [CHR ''%'', hex_char ((of_char c :: nat) div 16), hex_char ((of_char c :: nat) mod 16)])"

definition urlencode :: "string \<Rightarrow> string" where
  "urlencode s = concat (map urlencode_byte s)"

definition serialize_pair :: "string \<times> string \<Rightarrow> string" where
  "serialize_pair kv = urlencode (fst kv) @ ''='' @ urlencode (snd kv)"

definition URLSearchParams_toString :: "(string \<times> string) list \<Rightarrow> string" where
  "URLSearchParams_toString ps = join ''&'' (map serialize_pair ps)"

section \<open>The public operations\<close>

text \<open>
  \<open>getType\<close> of \<open>../util/getType\<close> is a parameter: the operations only compare its
  result on a string argument with \<open>"string"\<close>.
\<close>

definition generateOauth2Link :: "(string \<Rightarrow> string) \<Rightarrow> DiscordAuthorization \<Rightarrow> string list \<Rightarrow> string \<Rightarrow> error + string" where
  "generateOauth2Link getType this scopes state =
     (if getType state \<noteq> ''string'' then
        Inl (TypeError (''Expected type of state to be a '' @ [CHR 0x27] @ ''string'' @ [CHR 0x27]
                        @ '' but got '' @ getType state @ '' instead.''))
      else
        Inr (''https://discord.com/oauth2/authorize?'' @
             URLSearchParams_toString
               [(''client_id'', clientId this),
                (''redirect_uri'', redirectUri this),
                (''response_type'', ''code''),
                (''state'', state),
                (''scope'', join '' '' scopes)]))"

text \<open>
  \<open>response?.data.key\<close>: \<open>undefined\<close> when \<open>response\<close> is \<open>null\<close>; otherwise
  \<open>response.data\<close> is read, and reading \<open>key\<close> from it throws when it is \<open>undefined\<close>
  or \<open>null\<close>.
\<close>

definition data_field :: "json \<Rightarrow> string \<Rightarrow> error + jsval" where
  "data_field resp key =
     (if resp = JNull then Inr None
      else (case get_prop resp ''data'' of
              None \<Rightarrow> Inl (cannot_read ''undefined'' key)
            | Some d \<Rightarrow> if d = JNull then Inl (cannot_read ''null'' key) else Inr (get_prop d key)))"

text \<open>\<open>response?.data\<close>.\<close>

definition data_of :: "json \<Rightarrow> jsval" where
  "data_of resp = (if resp = JNull then None else get_prop resp ''data'')"

record tokens =
  result_accessToken :: jsval
  result_refreshToken :: jsval

definition exchangeCodeForTokens :: "(string \<Rightarrow> string) \<Rightarrow> network \<Rightarrow> DiscordAuthorization \<Rightarrow> string
    \<Rightarrow> (error + tokens) \<times> AxiosRequestConfig list" where
  "exchangeCodeForTokens getType net this code =
     (if getType code \<noteq> ''string'' then
        (Inl (TypeError (''Expected type of code to exchange to be '' @ [CHR 0x27] @ ''string'' @ [CHR 0x27]
                         @ '' but got '' @ getType code)), [])
      else
        (let params' = URLSearchParams_toString
                         [(''client_id'', clientId this),
                          (''client_secret'', clientSecret this),
                          (''grant_type'', ''authorization_code''),
                          (''code'', code),
                          (''redirect_uri'', redirectUri this)];
             (res, calls) = request net this ''POST'' ''/oauth2/token''
                              (no_options\<lparr>headers := Some [(''Content-Type'', ''application/x-www-form-urlencoded'')],
                                          data := Some params'\<rparr>)
         in (case res of
               Inl e \<Rightarrow> Inl e
             | Inr resp \<Rightarrow>
                 (case data_field resp ''access_token'' of
                    Inl e \<Rightarrow> Inl e
                  | Inr a \<Rightarrow>
                      (case data_field resp ''refresh_token'' of
                         Inl e \<Rightarrow> Inl e
                       | Inr r \<Rightarrow> Inr \<lparr>result_accessToken = a, result_refreshToken = r\<rparr>)),
             calls)))"

text \<open>
  \<open>revokeToken\<close> returns its outcome, the object after the call and the outbound calls.
  \<open>axios.post(url, data, config)\<close> is a request of \<open>config\<close> with method, URL and
  data filled in. The parameters are built after the guard, where \<open>refreshToken\<close> is a
  non-empty string.
\<close>

definition revoke_config :: "DiscordAuthorization \<Rightarrow> AxiosRequestConfig" where
  "revoke_config this =
     no_options\<lparr>method' := Some ''post'',
                url := Some ''https://discord.com/api/oauth2/token/revoke'',
                headers := Some [(''Content-Type'', ''application/x-www-form-urlencoded'')],
                data := Some (URLSearchParams_toString
                                [(''client_id'', clientId this),
                                 (''client_secret'', clientSecret this),
                                 (''token'', template (refreshToken this))])\<rparr>"

definition revokeToken :: "network \<Rightarrow> DiscordAuthorization
    \<Rightarrow> (error + unit) \<times> DiscordAuthorization \<times> AxiosRequestConfig list" where
  "revokeToken net this =
     (if falsy_field (accessToken this) \<or> falsy_field (refreshToken this) then
        (Inl (Error ''Access token and refresh token are required to revoke the token.''), this, [])
      else
        (case axios_request net (revoke_config this) of
           Inl err \<Rightarrow> (Inl (Rejected err), this, [revoke_config this])
         | Inr r \<Rightarrow> (Inr (), this\<lparr>accessToken := None, refreshToken := None\<rparr>, [revoke_config this])))"

definition getApplication :: "network \<Rightarrow> DiscordAuthorization \<Rightarrow> (error + jsval) \<times> AxiosRequestConfig list" where
  "getApplication net this =
     (let (res, calls) = request net this ''GET'' ''/oauth2/applications/@me''
                           (no_options\<lparr>headers := Some [(''Authorization'', ''Bot '' @ template (clientToken this))]\<rparr>)
      in (case res of Inl e \<Rightarrow> Inl e | Inr resp \<Rightarrow> Inr (data_of resp), calls))"

section \<open>Reading a request and a link back\<close>

text \<open>The entry of a request's headers under a key.\<close>

definition header :: "AxiosRequestConfig \<Rightarrow> string \<Rightarrow> string option" where
  "header config k = (case headers config of None \<Rightarrow> None | Some h \<Rightarrow> map_of h k)"

text \<open>
  Decoding a query string is the application/x-www-form-urlencoded parser: split at
  \<open>&\<close>, drop empty pieces, split each piece at its first \<open>=\<close>, turn \<open>+\<close> into a
  space, then decode every \<open>%\<close> followed by two hexadecimal digits.
\<close>

definition hex_value :: "char \<Rightarrow> nat option" where
  "hex_value c =
     (let n = (of_char c :: nat)
      in if 0x30 \<le> n \<and> n \<le> 0x39 then Some (n - 0x30)
         else if 0x41 \<le> n \<and> n \<le> 0x46 then Some (n - 0x41 + 10)
         else if 0x61 \<le> n \<and> n \<le> 0x66 then Some (n - 0x61 + 10)
         else None)"

fun percent_decode :: "string \<Rightarrow> string" where
  "percent_decode [] = []"
| "percent_decode [c] = [c]"
| "percent_decode [c, d] = [c, d]"
| "percent_decode (c # h # l # rest) =
     (case (c = CHR ''%'', hex_value h, hex_value l) of
        (True, Some a, Some b) \<Rightarrow> char_of (a * 16 + b) # percent_decode rest
      | _ \<Rightarrow> c # percent_decode (h # l # rest))"

definition plus_to_space :: "char \<Rightarrow> char" where
  "plus_to_space c = (if c = CHR ''+'' then CHR 0x20 else c)"

definition urldecode :: "string \<Rightarrow> string" where
  "urldecode s = percent_decode (map plus_to_space s)"

fun split_on :: "char \<Rightarrow> string \<Rightarrow> string list" where
  "split_on sep [] = [[]]"
| "split_on sep (c # cs) =
     (if c = sep then [] # split_on sep cs
      else (case split_on sep cs of [] \<Rightarrow> [[c]] | p # ps \<Rightarrow> (c # p) # ps))"

definition parse_pair :: "string \<Rightarrow> string \<times> string" where
  "parse_pair piece =
     (urldecode (takeWhile (\<lambda>c. c \<noteq> CHR ''='') piece),
      urldecode (case dropWhile (\<lambda>c. c \<noteq> CHR ''='') piece of [] \<Rightarrow> [] | _ # v \<Rightarrow> v))"

definition parse_query :: "string \<Rightarrow> (string \<times> string) list" where
  "parse_query q = map parse_pair (filter (\<lambda>p. p \<noteq> []) (split_on (CHR ''&'') q))"

text \<open>The query string of a URL: what follows its first \<open>?\<close>.\<close>

definition query_of :: "string \<Rightarrow> string" where
  "query_of u = (case dropWhile (\<lambda>c. c \<noteq> CHR ''?'') u of [] \<Rightarrow> [] | _ # q \<Rightarrow> q)"

section \<open>An example client\<close>

abbreviation example_client :: DiscordAuthorization where
  "example_client \<equiv>
     \<lparr>clientId = ''42'', clientSecret = ''s3cret'', redirectUri = ''https://app.example/cb'',
      accessToken = Some ''tok'', refreshToken = None, clientToken = Some ''bot''\<rparr>"

section \<open>Properties of the request executor\<close>

lemmas request_eval =
  request_def requestOptions_def axios_request_def validateStatus_def request_catch_def
  errorMessages_def truthy_val_def cannot_read_def template_def no_options_def baseURL_def Let_def

lemma request_calls: "snd (request net this m e opts) = [requestOptions this m e opts]"
  by (simp add: request_def Let_def)

lemma requestOptions_headers:
  "headers (requestOptions this m e opts) =
     Some (AList.update ''Authorization'' (''Bearer '' @ template (accessToken this))
             (case headers opts of None \<Rightarrow> [] | Some h \<Rightarrow> h))"
  by (simp add: requestOptions_def Let_def)

lemma header_requestOptions:
  "header (requestOptions this m e opts) =
     (header opts)(''Authorization'' \<mapsto> ''Bearer '' @ template (accessToken this))"
  by (rule ext) (simp add: header_def requestOptions_headers update_conv' split: option.splits)

lemma request_rejected:
  "net (requestOptions this m e opts) = Some r \<Longrightarrow> \<not> validateStatus (status r)
   \<Longrightarrow> fst (request net this m e opts) = Inl (request_catch (AxiosError (Some r)))"
  by (simp add: request_def axios_request_def Let_def)

lemma truthy_message_truthy_body: "truthy_val (get_prop b k) \<Longrightarrow> truthy b"
  by (cases b) (simp_all add: truthy_val_def)

text \<open>
  C1. A successful token exchange should hand back the \<open>access_token\<close> and
  \<open>refresh_token\<close> of the response body. \<open>request\<close> already returns the body
  (\<open>response.data\<close>), and \<open>exchangeCodeForTokens\<close> reads \<open>.data\<close> of it once more: on
  the body of a token response, which has no \<open>data\<close> member, it throws a \<open>TypeError\<close>
  instead of returning the tokens.
\<close>

theorem exchangeCodeForTokens_token_response:
  "fst (exchangeCodeForTokens (\<lambda>_. ''string'')
          (\<lambda>_. Some (AxiosResponse 200
                        (JObj [(''access_token'', JStr ''A1''), (''refresh_token'', JStr ''R1'')])))
          example_client ''c0de'')
     = Inl (TypeError ''Cannot read properties of undefined (reading 'access_token')'')"
  by (simp add: exchangeCodeForTokens_def request_eval data_field_def)

text \<open>
  C2 (amended). A response with status 401 whose body has a truthy \<open>message\<close> member
  raises an \<open>InvalidAccessTokenError\<close>; its message is the entry of the status table, and
  its context is the JSON serialisation of the whole body.
\<close>

theorem request_401_with_message:
  assumes "net (requestOptions this m e opts) = Some (AxiosResponse 401 b)"
    and "get_prop b ''message'' = Some msg" and "truthy msg"
  shows "fst (request net this m e opts)
           = Inl (InvalidAccessTokenError ''Access token must be valid.'' (JSON_stringify b))"
proof -
  from assms(2,3) have msg: "truthy_val (get_prop b ''message'')"
    by (simp add: truthy_val_def)
  then have "truthy b"
    by (rule truthy_message_truthy_body)
  with msg assms(1) show ?thesis
    by (simp add: request_rejected validateStatus_def request_catch_def errorMessages_def)
qed

theorem request_401_with_message_witness:
  "fst (request (\<lambda>_. Some (AxiosResponse 401 (JObj [(''message'', JStr ''invalid token'')])))
          example_client ''GET'' ''/users/@me'' no_options)
     = Inl (InvalidAccessTokenError ''Access token must be valid.''
              (JSON_stringify (JObj [(''message'', JStr ''invalid token'')])))"
  by (rule request_401_with_message
        [where b = "JObj [(''message'', JStr ''invalid token'')]" and msg = "JStr ''invalid token''"])
     simp_all

text \<open>
  The claim as first stated fails twice: a body whose \<open>message\<close> is the empty string
  raises the plain \<open>Error\<close>, and with the message \<open>invalid token\<close> the error raised
  carries the table's message, the upstream one being part of the context only.
\<close>

theorem request_401_counterexample:
  \<open>fst (request (\<lambda>_. Some (AxiosResponse 401 (JObj [(''message'', JStr [])])))
          example_client ''GET'' ''/users/@me'' no_options)
     = Inl (Error ''Access token must be valid.'')
   \<and> fst (request (\<lambda>_. Some (AxiosResponse 401 (JObj [(''message'', JStr ''invalid token'')])))
          example_client ''GET'' ''/users/@me'' no_options)
     = Inl (InvalidAccessTokenError ''Access token must be valid.'' ''{"message":"invalid token"}'')\<close>
  by (simp add: request_eval quote_def quote_char_def)

text \<open>
  C3 (amended). A response with status 500 whose body has no \<open>message\<close> member raises
  the plain \<open>Error\<close> with the table's message for 500 and no context.
\<close>

theorem request_500_without_message:
  assumes "net (requestOptions this m e opts) = Some (AxiosResponse 500 b)"
    and "get_prop b ''message'' = None"
  shows "fst (request net this m e opts) = Inl (Error ''Discord API Server Error'')"
  using assms
  by (simp add: request_rejected validateStatus_def request_catch_def errorMessages_def truthy_val_def)

theorem request_500_without_message_witness:
  "fst (request (\<lambda>_. Some (AxiosResponse 500 (JObj [(''code'', JNum 0)])))
          example_client ''GET'' ''/users/@me'' no_options)
     = Inl (Error ''Discord API Server Error'')"
  by (rule request_500_without_message [where b = "JObj [(''code'', JNum 0)]"]) simp_all

text \<open>The error raised there is not a \<open>DiscordAPIError\<close>.\<close>

theorem request_500_counterexample:
  "fst (request (\<lambda>_. Some (AxiosResponse 500 (JObj []))) example_client ''GET'' ''/users/@me'' no_options)
     = Inl (Error ''Discord API Server Error'')
   \<and> fst (request (\<lambda>_. Some (AxiosResponse 500 (JObj []))) example_client ''GET'' ''/users/@me'' no_options)
     \<noteq> Inl (DiscordAPIError ''Discord API Server Error'' ''{}'')"
  by (simp add: request_eval)

text \<open>
  C4. A network failure should surface as the unclassified \<open>Error\<close>. The \<open>catch\<close> block
  reads \<open>error?.response.status\<close> while \<open>response\<close> is \<open>undefined\<close>, so the handler
  itself throws a \<open>TypeError\<close>.
\<close>

theorem request_network_failure:
  "request (\<lambda>_. None) example_client ''GET'' ''/users/@me'' no_options
     = (Inl (TypeError ''Cannot read properties of undefined (reading 'status')''),
        [\<lparr>method' = Some ''GET'', url = Some ''https://discord.com/api/v10/users/@me'',
          headers = Some [(''Authorization'', ''Bearer tok'')], params = None, data = None\<rparr>])"
  by (simp add: request_eval)

section \<open>Properties of revocation\<close>

text \<open>
  C5. When \<open>accessToken\<close> or \<open>refreshToken\<close> is \<open>null\<close>, \<open>revokeToken\<close> throws
  its precondition error, makes no outbound call and leaves the object as it was.
\<close>

theorem revokeToken_missing_token:
  assumes "accessToken this = None \<or> refreshToken this = None"
  shows "revokeToken net this
           = (Inl (Error ''Access token and refresh token are required to revoke the token.''), this, [])"
  using assms by (auto simp: revokeToken_def falsy_field_def)

theorem revokeToken_missing_token_witness:
  "revokeToken (\<lambda>_. Some (AxiosResponse 200 (JObj []))) example_client
     = (Inl (Error ''Access token and refresh token are required to revoke the token.''),
        example_client, [])"
  by (rule revokeToken_missing_token) simp

text \<open>
  C6. With both tokens set, a \<open>revokeToken\<close> call whose outbound request succeeds
  returns normally and leaves both token fields \<open>null\<close>.
\<close>

theorem revokeToken_success_clears_tokens:
  assumes "accessToken this = Some a" and "refreshToken this = Some r"
    and "revokeToken net this = (res, this', calls)"
    and "c \<in> set calls" and "axios_request net c = Inr resp"
  shows "res = Inr () \<and> accessToken this' = None \<and> refreshToken this' = None"
  using assms by (auto simp: revokeToken_def split: if_splits sum.splits)

theorem revokeToken_success_clears_tokens_witness:
  "fst (revokeToken (\<lambda>_. Some (AxiosResponse 200 (JObj []))) (example_client\<lparr>refreshToken := Some ''rt''\<rparr>))
     = Inr ()
   \<and> accessToken (fst (snd (revokeToken (\<lambda>_. Some (AxiosResponse 200 (JObj [])))
                               (example_client\<lparr>refreshToken := Some ''rt''\<rparr>)))) = None
   \<and> refreshToken (fst (snd (revokeToken (\<lambda>_. Some (AxiosResponse 200 (JObj [])))
                                (example_client\<lparr>refreshToken := Some ''rt''\<rparr>)))) = None"
proof -
  let ?net = "\<lambda>_ :: AxiosRequestConfig. Some (AxiosResponse 200 (JObj []))"
  let ?cl = "example_client\<lparr>refreshToken := Some ''rt''\<rparr>"
  have run: "revokeToken ?net ?cl
               = (Inr (), ?cl\<lparr>accessToken := None, refreshToken := None\<rparr>, [revoke_config ?cl])"
    by (simp add: revokeToken_def falsy_field_def axios_request_def validateStatus_def)
  have ok: "axios_request ?net (revoke_config ?cl) = Inr (AxiosResponse 200 (JObj []))"
    by (simp add: axios_request_def validateStatus_def)
  have "fst (revokeToken ?net ?cl) = Inr ()
        \<and> accessToken (fst (snd (revokeToken ?net ?cl))) = None
        \<and> refreshToken (fst (snd (revokeToken ?net ?cl))) = None"
  proof (rule revokeToken_success_clears_tokens
           [where this = ?cl and net = ?net and a = "''tok''" and r = "''rt''"
              and calls = "snd (snd (revokeToken ?net ?cl))"
              and c = "revoke_config ?cl" and resp = "AxiosResponse 200 (JObj [])"])
    show "accessToken ?cl = Some ''tok''" by simp
    show "refreshToken ?cl = Some ''rt''" by simp
    show "revokeToken ?net ?cl
            = (fst (revokeToken ?net ?cl), fst (snd (revokeToken ?net ?cl)),
               snd (snd (revokeToken ?net ?cl)))" by simp
    show "revoke_config ?cl \<in> set (snd (snd (revokeToken ?net ?cl)))"
      by (simp only: run snd_conv list.set insertI1)
    show "axios_request ?net (revoke_config ?cl) = Inr (AxiosResponse 200 (JObj []))"
      by (rule ok)
  qed
  then show ?thesis by simp
qed

section \<open>Properties of the authorization link\<close>

lemma hex_digits_back: "\<forall>n \<in> set [0..<16]. hex_value (hex_char n) = Some n"
  by code_simp

lemma hex_value_hex_char: "n < 16 \<Longrightarrow> hex_value (hex_char n) = Some n"
  using hex_digits_back by simp

lemma hex_value_specials:
  "hex_value (CHR ''+'') = None" "hex_value (CHR ''&'') = None"
  "hex_value (CHR ''='') = None" "hex_value (CHR ''%'') = None"
  by (simp_all add: hex_value_def)

lemma hex_char_neq:
  assumes "n < 16"
  shows "hex_char n \<noteq> CHR ''+''" "hex_char n \<noteq> CHR ''&''" "hex_char n \<noteq> CHR ''=''"
  using hex_value_hex_char [OF assms] hex_value_specials by auto

lemma unreserved_neq:
  assumes "unreserved c"
  shows "c \<noteq> CHR ''+''" "c \<noteq> CHR ''&''" "c \<noteq> CHR ''=''" "c \<noteq> CHR ''%''"
  using assms by (auto simp: unreserved_def)

lemma nibbles:
  "(of_char c :: nat) div 16 < 16" "(of_char c :: nat) mod 16 < 16"
  using nat_of_char_less_256 [of c] by (simp_all add: less_mult_imp_div_less)

text \<open>No encoded byte contains a separator of the query string.\<close>

lemma set_urlencode_byte:
  "CHR ''&'' \<notin> set (urlencode_byte c) \<and> CHR ''='' \<notin> set (urlencode_byte c)"
  using hex_char_neq [OF nibbles(1), of c] hex_char_neq [OF nibbles(2), of c] unreserved_neq [of c]
  by (auto simp: urlencode_byte_def)

lemma set_urlencode: "CHR ''&'' \<notin> set (urlencode s)" "CHR ''='' \<notin> set (urlencode s)"
  using set_urlencode_byte by (auto simp: urlencode_def)

text \<open>The decoder reads one encoded byte back, whatever follows it.\<close>

lemma decode_encoded_byte:
  "percent_decode (map plus_to_space (urlencode_byte c @ rest))
     = c # percent_decode (map plus_to_space rest)"
proof (cases "c = CHR 0x20")
  case True
  then show ?thesis
    by (cases "map plus_to_space rest" rule: percent_decode.cases)
       (simp_all add: urlencode_byte_def plus_to_space_def)
next
  case sp: False
  show ?thesis
  proof (cases "unreserved c")
    case True
    with sp unreserved_neq [of c] show ?thesis
      by (cases "map plus_to_space rest" rule: percent_decode.cases)
         (simp_all add: urlencode_byte_def plus_to_space_def)
  next
    case False
    with sp show ?thesis
      using hex_char_neq [OF nibbles(1), of c] hex_char_neq [OF nibbles(2), of c]
      by (simp add: urlencode_byte_def plus_to_space_def hex_value_hex_char nibbles)
  qed
qed

lemma urldecode_urlencode: "urldecode (urlencode s) = s"
proof -
  have "percent_decode (map plus_to_space (urlencode s)) = s"
    by (induction s)
       (simp_all add: urlencode_def decode_encoded_byte del: percent_decode.simps(2-) map_append)
  then show ?thesis by (simp add: urldecode_def)
qed

lemma split_on_no_sep: "sep \<notin> set p \<Longrightarrow> split_on sep p = [p]"
  by (induction p) auto

lemma split_on_append: "sep \<notin> set p \<Longrightarrow> split_on sep (p @ sep # rest) = p # split_on sep rest"
  by (induction p) auto

lemma split_on_join:
  "ps \<noteq> [] \<Longrightarrow> \<forall>p \<in> set ps. sep \<notin> set p \<Longrightarrow> split_on sep (join [sep] ps) = ps"
  by (induction "[sep]" ps rule: join.induct) (simp_all add: split_on_no_sep split_on_append)

lemma serialize_pair_props: "CHR ''&'' \<notin> set (serialize_pair kv)" "serialize_pair kv \<noteq> []"
  by (simp_all add: serialize_pair_def set_urlencode)

lemma takeWhile_until: "x \<notin> set p \<Longrightarrow> takeWhile (\<lambda>c. c \<noteq> x) (p @ x # r) = p"
  by (induction p) auto

lemma dropWhile_until: "x \<notin> set p \<Longrightarrow> dropWhile (\<lambda>c. c \<noteq> x) (p @ x # r) = x # r"
  by (induction p) auto

lemma parse_pair_serialize_pair: "parse_pair (serialize_pair kv) = kv"
  by (simp add: parse_pair_def serialize_pair_def takeWhile_until dropWhile_until
        set_urlencode urldecode_urlencode)

text \<open>Parsing what \<open>toString\<close> wrote gives the parameters back, in order.\<close>

lemma parse_query_toString: "parse_query (URLSearchParams_toString ps) = ps"
proof (cases "ps = []")
  case True
  then show ?thesis by (simp add: parse_query_def URLSearchParams_toString_def)
next
  case False
  then have "split_on (CHR ''&'') (join ''&'' (map serialize_pair ps)) = map serialize_pair ps"
    by (intro split_on_join) (auto simp: serialize_pair_props)
  moreover have "filter (\<lambda>p. p \<noteq> []) (map serialize_pair ps) = map serialize_pair ps"
    by (simp add: filter_map o_def serialize_pair_props)
  ultimately show ?thesis
    by (simp add: parse_query_def URLSearchParams_toString_def o_def parse_pair_serialize_pair)
qed

lemma query_of_link: "query_of (''https://discord.com/oauth2/authorize?'' @ q) = q"
  by (simp add: query_of_def)

text \<open>
  C7. For a state that passes the type check, \<open>generateOauth2Link\<close> returns a link
  whose query string decodes to exactly \<open>client_id\<close>, \<open>redirect_uri\<close>,
  \<open>response_type=code\<close>, the given \<open>state\<close>, and \<open>scope\<close> equal to the scopes joined
  by single spaces.
\<close>

theorem generateOauth2Link_query:
  assumes "getType state = ''string''"
  shows "\<exists>link. generateOauth2Link getType this scopes state = Inr link
           \<and> parse_query (query_of link)
               = [(''client_id'', clientId this),
                  (''redirect_uri'', redirectUri this),
                  (''response_type'', ''code''),
                  (''state'', state),
                  (''scope'', join '' '' scopes)]"
  using assms
  by (simp add: generateOauth2Link_def query_of_link parse_query_toString del: append.simps)

theorem generateOauth2Link_query_witness:
  "\<exists>link. generateOauth2Link (\<lambda>_. ''string'') example_client [''identify'', ''guilds''] ''abc'' = Inr link
         \<and> parse_query (query_of link)
             = [(''client_id'', ''42''),
                (''redirect_uri'', ''https://app.example/cb''),
                (''response_type'', ''code''),
                (''state'', ''abc''),
                (''scope'', ''identify guilds'')]"
  using generateOauth2Link_query
          [where getType = "\<lambda>_. ''string''" and state = "''abc''" and this = example_client
             and scopes = "[''identify'', ''guilds'']"]
  by simp

section \<open>Success and headers\<close>

text \<open>
  C8 (amended). When the response status is in the 2xx range, \<open>request\<close> returns the
  decoded body, after exactly one outbound call.
\<close>

theorem request_2xx_returns_body:
  assumes "net (requestOptions this m e opts) = Some (AxiosResponse s b)"
    and "200 \<le> s" and "s < 300"
  shows "request net this m e opts = (Inr b, [requestOptions this m e opts])"
  using assms by (simp add: request_def axios_request_def validateStatus_def Let_def)

theorem request_2xx_returns_body_witness:
  "request (\<lambda>_. Some (AxiosResponse 204 (JStr []))) example_client ''GET'' ''/users/@me'' no_options
     = (Inr (JStr []), [requestOptions example_client ''GET'' ''/users/@me'' no_options])"
  by (rule request_2xx_returns_body [where s = 204]) simp_all

text \<open>A response with status 300 is rejected by the transport, and \<open>request\<close> throws.\<close>

theorem request_300_counterexample:
  "fst (request (\<lambda>_. Some (AxiosResponse 300 (JObj [(''id'', JStr ''1'')])))
          example_client ''GET'' ''/users/@me'' no_options)
     = Inl (Error ''Multiple Choices'')"
  by (simp add: request_eval)

text \<open>
  C9. Every call of \<open>request\<close> sends one request, whose headers are the caller's with
  \<open>Authorization\<close> set to \<open>Bearer\<close> and the access token, also when the caller gave an
  \<open>Authorization\<close> entry of its own.
\<close>

theorem request_injects_bearer:
  "snd (request net this m e opts) = [requestOptions this m e opts]
   \<and> header (requestOptions this m e opts)
       = (header opts)(''Authorization'' \<mapsto> ''Bearer '' @ template (accessToken this))"
  by (simp add: request_calls header_requestOptions)

text \<open>
  C10. The request \<open>getApplication\<close> sends carries \<open>Authorization: Bearer\<close> with the access
  token, not the \<open>Bot\<close> header the method passed in.
\<close>

theorem getApplication_sends_bearer:
  "\<exists>ro. snd (getApplication net this) = [ro]
        \<and> header ro ''Authorization'' = Some (''Bearer '' @ template (accessToken this))
        \<and> header ro ''Authorization'' \<noteq> Some (''Bot '' @ template (clientToken this))"
proof -
  let ?opts = "no_options\<lparr>headers := Some [(''Authorization'', ''Bot '' @ template (clientToken this))]\<rparr>"
  let ?ro = "requestOptions this ''GET'' ''/oauth2/applications/@me'' ?opts"
  have "snd (getApplication net this) = snd (request net this ''GET'' ''/oauth2/applications/@me'' ?opts)"
    by (simp add: getApplication_def Let_def split: prod.splits)
  then have calls: "snd (getApplication net this) = [?ro]"
    by (simp add: request_calls)
  have "header ?ro ''Authorization'' = Some (''Bearer '' @ template (accessToken this))"
    by (simp add: header_requestOptions)
  with calls show ?thesis by simp
qed

end
